theory Spec2Isabelle
  imports Main
begin

section \<open>Strings and numbers as Python prints them\<close>

text \<open>
  A Python \<open>str\<close> is modelled as a \<open>string\<close>; a \<open>char\<close> stands for the code point
  of the same number (the code points below 256). The white space of \<open>str.strip\<close>,
  \<open>str.isspace\<close> and of the regular expression class \<open>\s\<close> on \<open>str\<close> patterns is one
  and the same set; below 256 it is the twelve characters of \<open>whitespace\<close>.
\<close>

definition whitespace :: "char list" where
  "whitespace = [CHR 0x09, CHR 0x0A, CHR 0x0B, CHR 0x0C, CHR 0x0D, CHR 0x1C, CHR 0x1D,
     CHR 0x1E, CHR 0x1F, CHR '' '', CHR 0x85, CHR 0xA0]"

definition isspace :: "char \<Rightarrow> bool" where
  "isspace c = (c \<in> set whitespace)"

text \<open>\<open>s.strip()\<close>: white space removed at both ends.\<close>

definition strip :: "string \<Rightarrow> string" where
  "strip s = rev (dropWhile isspace (rev (dropWhile isspace s)))"

text \<open>\<open>re.sub(r'[\s]+', '_', s)\<close>: every maximal run of white space becomes one underscore.\<close>

function re_sub_ws :: "string \<Rightarrow> string" where
  "re_sub_ws [] = []"
| "re_sub_ws (c # cs) =
     (if isspace c then CHR ''_'' # re_sub_ws (dropWhile isspace cs) else c # re_sub_ws cs)"
  by pat_completeness auto
termination
  by (relation "measure length") (auto simp: length_dropWhile_le less_Suc_eq_le)

text \<open>Decimal digits of a natural number, and of an integer with its sign (\<open>str(n)\<close>,
  \<open>format(n, 'd')\<close>).\<close>

definition digit_char :: "nat \<Rightarrow> char" where
  "digit_char d = ''0123456789'' ! (d mod 10)"

fun str_nat :: "nat \<Rightarrow> string" where
  "str_nat n = (if n < 10 then [digit_char n] else str_nat (n div 10) @ [digit_char (n mod 10)])"

declare str_nat.simps [simp del]

definition str_int :: "int \<Rightarrow> string" where
  "str_int i = (if i < 0 then CHR ''-'' # str_nat (nat (- i)) else str_nat (nat i))"

text \<open>A number padded with zeros on the left to a width, as \<open>%02d\<close> does.\<close>

definition zero_pad :: "nat \<Rightarrow> nat \<Rightarrow> string" where
  "zero_pad w n = replicate (w - length (str_nat n)) (CHR ''0'') @ str_nat n"

text \<open>\<open>sep.join(parts)\<close>.\<close>

fun join :: "string \<Rightarrow> string list \<Rightarrow> string" where
  "join sep [] = []"
| "join sep [x] = x"
| "join sep (x # y # ys) = x @ sep @ join sep (y # ys)"

section \<open>Time stamps\<close>

text \<open>
  A \<open>datetime.datetime\<close> value with its fields. \<open>strftime\<close> interprets the directives
  the source uses: \<open>%Y\<close>, \<open>%m\<close>, \<open>%d\<close>, \<open>%H\<close>, \<open>%M\<close>, \<open>%S\<close> and \<open>%%\<close>; every other
  character is copied. The month, the day, the hour, the minute and the second are printed
  with two digits. The year is printed as the C library of Linux prints it, in decimal
  without leading zeros: four digits from the year 1000 on, fewer for the years before.
\<close>

record datetime =
  year :: nat
  month :: nat
  day :: nat
  hour :: nat
  minute :: nat
  second :: nat
  microsecond :: nat

definition directive :: "char \<Rightarrow> datetime \<Rightarrow> string" where
  "directive d ts =
     (if d = CHR ''Y'' then str_nat (year ts)
      else if d = CHR ''m'' then zero_pad 2 (month ts)
      else if d = CHR ''d'' then zero_pad 2 (day ts)
      else if d = CHR ''H'' then zero_pad 2 (hour ts)
      else if d = CHR ''M'' then zero_pad 2 (minute ts)
      else if d = CHR ''S'' then zero_pad 2 (second ts)
      else if d = CHR ''%'' then ''%''
      else [CHR ''%'', d])"

fun strftime :: "string \<Rightarrow> datetime \<Rightarrow> string" where
  "strftime [] ts = []"
| "strftime [c] ts = [c]"
| "strftime (c # d # cs) ts =
     (if c = CHR ''%'' then directive d ts @ strftime cs ts else c # strftime (d # cs) ts)"

section \<open>File names\<close>

text \<open>
  \<open>get_timestamp_filename(timestamp, nametag=None)\<close>. \<open>None\<close> is the absent tag. The
  source tests \<open>if nametag:\<close> twice: before normalising (an empty tag is left alone) and
  when it builds the result (a tag that is empty then is left out). It has no \<open>raise\<close>.
\<close>

definition get_timestamp_filename :: "datetime \<Rightarrow> string option \<Rightarrow> string" where
  "get_timestamp_filename timestamp nametag =
     (let datetime_str = strftime ''%Y%m%d-%H%M-%S'' timestamp;
          nametag' = (case nametag of
                        None \<Rightarrow> None
                      | Some t \<Rightarrow> if t \<noteq> [] then Some (re_sub_ws (strip t)) else Some t)
      in case nametag' of
           None \<Rightarrow> datetime_str
         | Some t \<Rightarrow> if t \<noteq> [] then datetime_str @ ''_'' @ t else datetime_str)"

section \<open>Python values and the object store\<close>

text \<open>
  A \<open>float\<close> (and every numpy floating type, which \<open>format\<close> converts to one) is a
  sign, a mantissa and a binary exponent, \<open>Finite s m e\<close> standing for
  \<open>(-1)\<^sup>s * m * 2\<^sup>e\<close>, or an infinity, or not a number.
\<close>

datatype pyfloat = Finite bool nat int | Infinity bool | NaN

text \<open>Dictionary keys are hashable values: strings, and (what the registry does not
  exclude) keys that are no strings.\<close>

datatype pykey = KStr string | KInt int | KNone

type_synonym addr = nat

text \<open>
  Metadata values. The immutable ones are values; a list is a mutable object, so the value
  \<open>VList a\<close> is a reference to the list object at address \<open>a\<close> of the store, and two
  dictionaries that hold \<open>VList a\<close> share that object. Lists of integers stand for the
  mutable values of Python.
\<close>

datatype pyval = VNone | VBool bool | VInt int | VFloat pyfloat | VStr string | VList addr

type_synonym items = "(pykey \<times> pyval) list"

datatype pyobj = OList "int list" | ODict items

text \<open>
  The store is the list of the objects allocated so far; an object's address is its index,
  and a new object is appended. \<open>global_metadata\<close> is the class attribute
  \<open>DataStorageBase._global_metadata\<close>: the address of the registry dictionary. (The
  mutex that guards it orders concurrent calls; the model runs one call at a time.)
\<close>

record pystate =
  heap :: "pyobj list"
  global_metadata :: addr

definition heap_get :: "pyobj list \<Rightarrow> addr \<Rightarrow> pyobj option" where
  "heap_get h a = (if a < length h then Some (h ! a) else None)"

definition heap_new :: "pyobj list \<Rightarrow> pyobj \<Rightarrow> pyobj list \<times> addr" where
  "heap_new h obj = (h @ [obj], length h)"

definition heap_set :: "pyobj list \<Rightarrow> addr \<Rightarrow> pyobj \<Rightarrow> pyobj list" where
  "heap_set h a obj = (if a < length h then h[a := obj] else h)"

text \<open>The items of the dictionary object at an address, in insertion order.\<close>

definition dict_items :: "pyobj list \<Rightarrow> addr \<Rightarrow> items" where
  "dict_items h a = (case heap_get h a of Some (ODict es) \<Rightarrow> es | _ \<Rightarrow> [])"

definition list_items :: "pyobj list \<Rightarrow> addr \<Rightarrow> int list" where
  "list_items h a = (case heap_get h a of Some (OList xs) \<Rightarrow> xs | _ \<Rightarrow> [])"

text \<open>The initial state of the process: the class body has run \<open>_global_metadata = dict()\<close>.\<close>

definition initial_state :: pystate where
  "initial_state = \<lparr>heap = [ODict []], global_metadata = 0\<rparr>"

subsection \<open>Dictionaries\<close>

text \<open>
  A \<open>dict\<close> keeps its keys in insertion order: \<open>d[k] = v\<close> replaces the value of a key
  in place and appends a new key; \<open>d.update(other)\<close> does so for the items of \<open>other\<close>
  in their order; \<open>d.pop(k, None)\<close> removes a key if it is there.
\<close>

fun setitem :: "items \<Rightarrow> pykey \<Rightarrow> pyval \<Rightarrow> items" where
  "setitem [] k v = [(k, v)]"
| "setitem ((k', v') # es) k v = (if k' = k then (k, v) # es else (k', v') # setitem es k v)"

fun update :: "items \<Rightarrow> items \<Rightarrow> items" where
  "update d [] = d"
| "update d ((k, v) # es) = update (setitem d k v) es"

fun pop :: "items \<Rightarrow> pykey \<Rightarrow> items" where
  "pop [] k = []"
| "pop ((k', v') # es) k = (if k' = k then es else (k', v') # pop es k)"

definition keys :: "items \<Rightarrow> pykey list" where
  "keys d = map fst d"

text \<open>Lookup \<open>d.get(k)\<close>.\<close>

definition getitem :: "items \<Rightarrow> pykey \<Rightarrow> pyval option" where
  "getitem d k = map_of d k"

text \<open>Mutations a caller can make through a reference: \<open>d[k] = v\<close> and \<open>del d[k]\<close> on the
  dictionary object at an address, \<open>l.append(x)\<close> on the list object at an address.\<close>

definition dict_setitem :: "pystate \<Rightarrow> addr \<Rightarrow> pykey \<Rightarrow> pyval \<Rightarrow> pystate" where
  "dict_setitem s a k v =
     (case heap_get (heap s) a of
        Some (ODict es) \<Rightarrow> s\<lparr>heap := heap_set (heap s) a (ODict (setitem es k v))\<rparr>
      | _ \<Rightarrow> s)"

definition dict_delitem :: "pystate \<Rightarrow> addr \<Rightarrow> pykey \<Rightarrow> pystate" where
  "dict_delitem s a k =
     (case heap_get (heap s) a of
        Some (ODict es) \<Rightarrow> s\<lparr>heap := heap_set (heap s) a (ODict (pop es k))\<rparr>
      | _ \<Rightarrow> s)"

definition list_append :: "pystate \<Rightarrow> pyval \<Rightarrow> int \<Rightarrow> pystate" where
  "list_append s v x =
     (case v of
        VList a \<Rightarrow>
          (case heap_get (heap s) a of
             Some (OList xs) \<Rightarrow> s\<lparr>heap := heap_set (heap s) a (OList (xs @ [x]))\<rparr>
           | _ \<Rightarrow> s)
      | _ \<Rightarrow> s)"

subsection \<open>Deep copies\<close>

text \<open>
  \<open>copy.deepcopy\<close>: an immutable value is its own copy; a list is copied into a new
  object. The memo maps the objects copied so far to their copies, so that an object
  referenced twice is copied once.
\<close>

type_synonym memo = "(addr \<times> addr) list"

fun deepcopy_val :: "pyobj list \<Rightarrow> memo \<Rightarrow> pyval \<Rightarrow> pyobj list \<times> memo \<times> pyval" where
  "deepcopy_val h m (VList a) =
     (case map_of m a of
        Some a' \<Rightarrow> (h, m, VList a')
      | None \<Rightarrow>
          (case heap_get h a of
             Some (OList xs) \<Rightarrow> (h @ [OList xs], (a, length h) # m, VList (length h))
           | _ \<Rightarrow> (h, m, VList a)))"
| "deepcopy_val h m v = (h, m, v)"

fun deepcopy_items :: "pyobj list \<Rightarrow> memo \<Rightarrow> items \<Rightarrow> pyobj list \<times> memo \<times> items" where
  "deepcopy_items h m [] = (h, m, [])"
| "deepcopy_items h m ((k, v) # es) =
     (case deepcopy_val h m v of
        (h1, m1, v') \<Rightarrow>
          (case deepcopy_items h1 m1 es of
             (h2, m2, es') \<Rightarrow> (h2, m2, (k, v') # es')))"

section \<open>The registry of global metadata\<close>

datatype pyerror =
  TypeError | KeyError | ValueError | FileNotFoundError | OSError | AttributeError

text \<open>\<open>get_global_metadata()\<close>: \<open>cls._global_metadata.copy()\<close>, a new dictionary
  object with the items of the registry. The values are not copied.\<close>

definition get_global_metadata :: "pystate \<Rightarrow> pystate \<times> addr" where
  "get_global_metadata s =
     (case heap_new (heap s) (ODict (dict_items (heap s) (global_metadata s))) of
        (h, a) \<Rightarrow> (s\<lparr>heap := h\<rparr>, a))"

text \<open>
  \<open>add_global_metadata(name, value=None, *, overwrite=False)\<close>. The first argument is
  a string, a dictionary (given by its items) or anything else. For a dictionary with a key
  that is no string the source builds a \<open>TypeError\<close> and does not raise it, so that branch
  falls through to the deep copy.
\<close>

datatype name_arg = NameStr string | NameDict items | NameOther

definition is_str_key :: "pykey \<Rightarrow> bool" where
  "is_str_key k = (case k of KStr _ \<Rightarrow> True | _ \<Rightarrow> False)"

definition add_global_metadata ::
  "pystate \<Rightarrow> name_arg \<Rightarrow> pyval \<Rightarrow> bool \<Rightarrow> (pyerror + unit) \<times> pystate" where
  "add_global_metadata s name val overwrite =
     (case (case name of
              NameStr n \<Rightarrow>
                (case deepcopy_val (heap s) [] val of (h, m, v') \<Rightarrow> Inr (h, [(KStr n, v')]))
            | NameDict d \<Rightarrow>
                (let unraised = (if list_ex (\<lambda>key. \<not> is_str_key key) (keys d)
                                 then Some TypeError else None)
                 in case deepcopy_items (heap s) [] d of (h, m, d') \<Rightarrow> Inr (h, d'))
            | NameOther \<Rightarrow> Inl TypeError) of
        Inl e \<Rightarrow> (Inl e, s)
      | Inr (h, metadata) \<Rightarrow>
          (let s1 = s\<lparr>heap := h\<rparr>;
               registry = dict_items (heap s1) (global_metadata s1);
               duplicate_keys = filter (\<lambda>k. k \<in> set (keys registry)) (keys metadata)
           in if \<not> overwrite \<and> duplicate_keys \<noteq> [] then (Inl KeyError, s1)
              else (Inr (),
                    s1\<lparr>heap := heap_set (heap s1) (global_metadata s1)
                                 (ODict (update registry metadata))\<rparr>)))"

text \<open>\<open>remove_global_metadata(names)\<close>: one key or a list of keys; a key that is not
  there is no error.\<close>

definition remove_global_metadata :: "pystate \<Rightarrow> pykey list \<Rightarrow> pystate" where
  "remove_global_metadata s names =
     s\<lparr>heap := heap_set (heap s) (global_metadata s)
                 (ODict (foldl pop (dict_items (heap s) (global_metadata s)) names))\<rparr>"

section \<open>Formatting numbers\<close>

text \<open>
  \<open>format(x, '.18e')\<close> and \<open>'%.18e' % x\<close> print the value of \<open>x\<close> correctly rounded
  (ties to even) in scientific notation: one digit, a point, as many digits as the
  precision says, \<open>e\<close>, the sign of the exponent and at least two exponent digits.

  \<open>round_half_even n d\<close> is the integer nearest to \<open>n / d\<close>. \<open>scientific prec num den\<close>
  gives, for the positive rational \<open>num / den\<close>, the integer of its first \<open>prec + 1\<close>
  decimal digits after rounding, and its decimal exponent. The number of digits of
  \<open>num div den\<close> (when \<open>den \<le> num\<close>) or of \<open>(den - 1) div num\<close> (when \<open>num < den\<close>)
  locates the first digit.
\<close>

definition round_half_even :: "nat \<Rightarrow> nat \<Rightarrow> nat" where
  "round_half_even n d =
     (let q = n div d; r = n mod d
      in if d < 2 * r \<or> (2 * r = d \<and> odd q) then q + 1 else q)"

definition carry :: "nat \<Rightarrow> nat \<Rightarrow> int \<Rightarrow> nat \<times> int" where
  "carry prec d k = (if d = 10 ^ (prec + 1) then (10 ^ prec, k + 1) else (d, k))"

definition scientific :: "nat \<Rightarrow> nat \<Rightarrow> nat \<Rightarrow> nat \<times> int" where
  "scientific prec num den =
     (if den \<le> num then
        (let k = length (str_nat (num div den)) - 1
         in carry prec
              (if k \<le> prec then round_half_even (num * 10 ^ (prec - k)) den
               else round_half_even num (den * 10 ^ (k - prec)))
              (int k))
      else
        (let j = length (str_nat ((den - 1) div num))
         in carry prec (round_half_even (num * 10 ^ (prec + j)) den) (- int j)))"

definition sign_str :: "bool \<Rightarrow> string" where
  "sign_str s = (if s then ''-'' else [])"

definition exponent_str :: "int \<Rightarrow> string" where
  "exponent_str k = (if k < 0 then ''-'' else ''+'') @ zero_pad 2 (nat \<bar>k\<bar>)"

definition format_e :: "nat \<Rightarrow> pyfloat \<Rightarrow> string" where
  "format_e prec x =
     (case x of
        NaN \<Rightarrow> ''nan''
      | Infinity s \<Rightarrow> sign_str s @ ''inf''
      | Finite s m e \<Rightarrow>
          (case (if m = 0 then (0, 0)
                 else scientific prec (m * 2 ^ nat e) (2 ^ nat (- e))) of
             (d, k) \<Rightarrow>
               (let ds = zero_pad (prec + 1) d
                in sign_str s @ take 1 ds @ (if prec = 0 then [] else ''.'' @ drop 1 ds)
                   @ ''e'' @ exponent_str k)))"

text \<open>
  What an f-string prints for a key (\<open>{param}\<close>) and for a value. The source tests the
  type of the value: \<open>{value:.18e}\<close> for a float; \<open>{value:d}\<close> for an integer, and a
  \<open>bool\<close> is an \<open>int\<close> in Python (\<open>True\<close> prints as \<open>1\<close>); \<open>{value}\<close>, that is
  \<open>str(value)\<close>, for everything else: \<open>None\<close>, a string, a list of integers.
\<close>

definition str_key :: "pykey \<Rightarrow> string" where
  "str_key k = (case k of KStr s \<Rightarrow> s | KInt i \<Rightarrow> str_int i | KNone \<Rightarrow> ''None'')"

definition str_list :: "int list \<Rightarrow> string" where
  "str_list xs = ''['' @ join '', '' (map str_int xs) @ '']''"

definition metadata_line :: "pyobj list \<Rightarrow> pykey \<times> pyval \<Rightarrow> string" where
  "metadata_line h item =
     (case item of
        (param, val) \<Rightarrow>
          (case val of
             VFloat x \<Rightarrow> str_key param @ '': '' @ format_e 18 x
           | VInt i \<Rightarrow> str_key param @ '': '' @ str_int i
           | VBool b \<Rightarrow> str_key param @ '': '' @ str_int (if b then 1 else 0)
           | VNone \<Rightarrow> str_key param @ '': '' @ ''None''
           | VStr t \<Rightarrow> str_key param @ '': '' @ t
           | VList a \<Rightarrow> str_key param @ '': '' @ str_list (list_items h a)))"

section \<open>Storage objects\<close>

text \<open>
  The column headers of a storage object: \<open>None\<close>, one string that is written as it is,
  or a tuple of names.
\<close>

datatype headers = NoHeaders | HeaderStr string | HeaderTuple "string list"

text \<open>The class of an object decides which \<open>create_header\<close> a call \<open>self.create_header\<close>
  reaches.\<close>

datatype storage_class = TextDataStorage | CsvDataStorage

text \<open>
  The fields that \<open>DataStorageBase.__init__\<close> sets (the image format of the thumbnails
  is left out), those that \<open>TextDataStorage.__init__\<close> adds, and the one that
  \<open>NpyDataStorage.__init__\<close> adds. The number format (\<open>'%.18e'\<close> by default) is
  given as the function from a number to its text.
\<close>

record storage_base =
  root_dir :: "string option"
  file_extension :: "string option"
  include_global_metadata :: bool

record text_storage = storage_base +
  cls :: storage_class
  column_headers :: headers
  number_format :: "pyfloat \<Rightarrow> string"
  comments :: "string option"
  delimiter :: string
  current_data_file :: "string option"

record npy_storage = storage_base +
  npy_column_headers :: headers

text \<open>The arguments of the constructors, as far as the constructors inspect them.\<close>

datatype headers_arg = ArgNone | ArgStr string | ArgSeq "pyval list"

definition is_str :: "pyval \<Rightarrow> bool" where
  "is_str v = (case v of VStr _ \<Rightarrow> True | _ \<Rightarrow> False)"

definition the_str :: "pyval \<Rightarrow> string" where
  "the_str v = (case v of VStr s \<Rightarrow> s | _ \<Rightarrow> [])"

definition init_file_extension :: "string option \<Rightarrow> string option" where
  "init_file_extension ext =
     (case ext of
        None \<Rightarrow> None
      | Some e \<Rightarrow> if e = [] then None
                  else if take 1 e = ''.'' then Some e
                  else Some (''.'' @ e))"

definition init_column_headers :: "headers_arg \<Rightarrow> pyerror + headers" where
  "init_column_headers arg =
     (case arg of
        ArgNone \<Rightarrow> Inr NoHeaders
      | ArgStr s \<Rightarrow> if s = [] then Inr NoHeaders else Inr (HeaderStr s)
      | ArgSeq vs \<Rightarrow> if vs = [] then Inr NoHeaders
                     else if list_ex (\<lambda>header. \<not> is_str header) vs then Inl TypeError
                     else Inr (HeaderTuple (map the_str vs)))"

definition text_storage_init ::
  "storage_class \<Rightarrow> headers_arg \<Rightarrow> (pyfloat \<Rightarrow> string) \<Rightarrow> pyval \<Rightarrow> pyval \<Rightarrow>
   string option \<Rightarrow> string option \<Rightarrow> bool \<Rightarrow> pyerror + text_storage" where
  "text_storage_init c column_headers_arg number_format_arg comments_arg delimiter_arg
     root_dir_arg file_extension_arg include_global_metadata_arg =
     (case init_column_headers column_headers_arg of
        Inl e \<Rightarrow> Inl e
      | Inr hs \<Rightarrow>
          if the_str delimiter_arg = [] \<or> \<not> is_str delimiter_arg then Inl ValueError
          else Inr \<lparr>root_dir = root_dir_arg,
                    file_extension = init_file_extension file_extension_arg,
                    include_global_metadata = include_global_metadata_arg,
                    cls = c,
                    column_headers = hs,
                    number_format = number_format_arg,
                    comments = (if is_str comments_arg then Some (the_str comments_arg) else None),
                    delimiter = the_str delimiter_arg,
                    current_data_file = None\<rparr>)"

text \<open>\<open>CsvDataStorage.__init__\<close> sets the delimiter to a comma, whatever was given.\<close>

definition csv_storage_init ::
  "headers_arg \<Rightarrow> (pyfloat \<Rightarrow> string) \<Rightarrow> pyval \<Rightarrow>
   string option \<Rightarrow> string option \<Rightarrow> bool \<Rightarrow> pyerror + text_storage" where
  "csv_storage_init column_headers_arg number_format_arg comments_arg
     root_dir_arg file_extension_arg include_global_metadata_arg =
     text_storage_init CsvDataStorage column_headers_arg number_format_arg comments_arg
       (VStr '','') root_dir_arg file_extension_arg include_global_metadata_arg"

definition npy_storage_init ::
  "headers_arg \<Rightarrow> string option \<Rightarrow> bool \<Rightarrow> pyerror + npy_storage" where
  "npy_storage_init column_headers_arg root_dir_arg include_global_metadata_arg =
     (case init_column_headers column_headers_arg of
        Inl e \<Rightarrow> Inl e
      | Inr hs \<Rightarrow>
          Inr \<lparr>root_dir = root_dir_arg,
               file_extension = init_file_extension (Some ''.npy''),
               include_global_metadata = include_global_metadata_arg,
               npy_column_headers = hs\<rparr>)"

section \<open>Headers\<close>

definition newline :: string where
  "newline = [CHR 0x0A]"

text \<open>\<open>s.splitlines()\<close>: the lines of a string without their line ends; a carriage
  return followed by a line feed is one line end.\<close>

definition linebreaks :: "char list" where
  "linebreaks = [CHR 0x0A, CHR 0x0B, CHR 0x0C, CHR 0x0D, CHR 0x1C, CHR 0x1D, CHR 0x1E, CHR 0x85]"

fun splitlines_from :: "string \<Rightarrow> string \<Rightarrow> string list" where
  "splitlines_from cur [] = (if cur = [] then [] else [cur])"
| "splitlines_from cur [c] = (if c \<in> set linebreaks then [cur] else [cur @ [c]])"
| "splitlines_from cur (c # d # cs) =
     (if c = CHR 0x0D \<and> d = CHR 0x0A then cur # splitlines_from [] cs
      else if c \<in> set linebreaks then cur # splitlines_from [] (d # cs)
      else splitlines_from (cur @ [c]) (d # cs))"

definition splitlines :: "string \<Rightarrow> string list" where
  "splitlines s = splitlines_from [] s"

text \<open>\<open>template.format(x)\<close>: every replacement field \<open>{0}\<close> of the template becomes
  \<open>x\<close>; a template without a field is returned as it is.\<close>

fun str_format :: "string \<Rightarrow> string \<Rightarrow> string" where
  "str_format (a # b # c # cs) x =
     (if [a, b, c] = ''{0}'' then x @ str_format cs x else a # str_format (b # c # cs) x)"
| "str_format cs x = cs"

text \<open>The metadata of a header: a copy of the global metadata if the object includes
  them, updated with the metadata of the call.\<close>

definition gather_metadata :: "pystate \<Rightarrow> bool \<Rightarrow> items option \<Rightarrow> items" where
  "gather_metadata s include_global metadata =
     (let all_metadata =
            (if include_global
             then (case get_global_metadata s of (s', a) \<Rightarrow> dict_items (heap s') a)
             else [])
      in case metadata of None \<Rightarrow> all_metadata | Some m \<Rightarrow> update all_metadata m)"

text \<open>
  \<open>TextDataStorage.create_header(metadata, notes, timestamp, include_column_headers)\<close>.
  \<open>now\<close> is what \<open>datetime.now()\<close> returns when the call gives no time stamp.
\<close>

definition text_header_lines ::
  "text_storage \<Rightarrow> pystate \<Rightarrow> items option \<Rightarrow> string option \<Rightarrow> datetime \<Rightarrow> bool
   \<Rightarrow> string list" where
  "text_header_lines self s metadata notes timestamp include_column_headers =
     (let all_metadata = gather_metadata s (include_global_metadata self) metadata
      in [str_format ''Saved Data on {0}'' (strftime ''%d.%m.%Y at %Hh%Mm%Ss'' timestamp), []]
         @ (case notes of
              None \<Rightarrow> []
            | Some n \<Rightarrow> if n \<noteq> [] then splitlines n @ [[]] else [])
         @ (if all_metadata \<noteq> []
            then [''Metadata:'', ''=========''] @ map (metadata_line (heap s)) all_metadata @ [[]]
            else [])
         @ [''Data:'', ''=====''] 
         @ (if include_column_headers
            then (case column_headers self of
                    NoHeaders \<Rightarrow> []
                  | HeaderStr c \<Rightarrow> [c]
                  | HeaderTuple cs \<Rightarrow> [join (delimiter self) cs])
            else []))"

definition text_create_header ::
  "text_storage \<Rightarrow> pystate \<Rightarrow> datetime \<Rightarrow> items option \<Rightarrow> string option \<Rightarrow>
   datetime option \<Rightarrow> bool \<Rightarrow> string" where
  "text_create_header self s now metadata notes timestamp include_column_headers =
     (let ts = (case timestamp of None \<Rightarrow> now | Some t \<Rightarrow> t);
          header_lines = text_header_lines self s metadata notes ts include_column_headers;
          prefix = (case comments self of None \<Rightarrow> [] | Some c \<Rightarrow> c);
          line_sep = newline @ prefix
      in prefix @ join line_sep header_lines @ newline)"

text \<open>\<open>CsvDataStorage.create_header(metadata, notes, timestamp)\<close>.\<close>

definition csv_create_header ::
  "text_storage \<Rightarrow> pystate \<Rightarrow> datetime \<Rightarrow> items option \<Rightarrow> string option \<Rightarrow>
   datetime option \<Rightarrow> string" where
  "csv_create_header self s now metadata notes timestamp =
     (let ts = (case timestamp of None \<Rightarrow> now | Some t \<Rightarrow> t)
      in case column_headers self of
           HeaderStr c \<Rightarrow> text_create_header self s now metadata notes (Some ts) True
         | HeaderTuple cs \<Rightarrow>
             text_create_header self s now metadata notes (Some ts) False
             @ join '','' cs @ newline
         | NoHeaders \<Rightarrow> text_create_header self s now metadata notes (Some ts) False)"

text \<open>The call \<open>self.create_header(metadata=..., notes=..., timestamp=...)\<close> on a text
  storage object, by the class of the object.\<close>

definition create_header ::
  "text_storage \<Rightarrow> pystate \<Rightarrow> datetime \<Rightarrow> items option \<Rightarrow> string option \<Rightarrow>
   datetime option \<Rightarrow> string" where
  "create_header self s now metadata notes timestamp =
     (case cls self of
        TextDataStorage \<Rightarrow> text_create_header self s now metadata notes timestamp True
      | CsvDataStorage \<Rightarrow> csv_create_header self s now metadata notes timestamp)"

text \<open>
  \<open>NpyDataStorage.create_header(metadata, notes, timestamp)\<close>. The title is written
  \<open>f'Saved Data on {0}'.format(...)\<close>: the f-string is evaluated first and prints the
  number \<open>0\<close> for \<open>{0}\<close>, and \<open>format\<close> is applied to its result.
\<close>

definition npy_header_lines ::
  "npy_storage \<Rightarrow> pystate \<Rightarrow> items option \<Rightarrow> string option \<Rightarrow> datetime \<Rightarrow> string list" where
  "npy_header_lines self s metadata notes timestamp =
     (let all_metadata = gather_metadata s (include_global_metadata self) metadata
      in [str_format (''Saved Data on '' @ str_int 0) (strftime ''%d.%m.%Y at %Hh%Mm%Ss'' timestamp),
          []]
         @ (case notes of
              None \<Rightarrow> []
            | Some n \<Rightarrow> if n \<noteq> [] then splitlines n @ [[]] else [])
         @ (if all_metadata \<noteq> []
            then [''Metadata:'', ''=========''] @ map (metadata_line (heap s)) all_metadata @ [[]]
            else [])
         @ [''Column headers:'', ''===============''] 
         @ (case npy_column_headers self of
              NoHeaders \<Rightarrow> []
            | HeaderStr c \<Rightarrow> [c]
            | HeaderTuple cs \<Rightarrow> [join '', '' cs]))"

definition npy_create_header ::
  "npy_storage \<Rightarrow> pystate \<Rightarrow> datetime \<Rightarrow> items option \<Rightarrow> string option \<Rightarrow>
   datetime option \<Rightarrow> string" where
  "npy_create_header self s now metadata notes timestamp =
     (let ts = (case timestamp of None \<Rightarrow> now | Some t \<Rightarrow> t)
      in join newline (npy_header_lines self s metadata notes ts) @ newline)"

section \<open>Files and arrays\<close>

text \<open>
  A numpy array is its shape and its elements in row order; its number of dimensions is
  the length of the shape. A file is the sequence of what was written to it: text, or an
  array in the binary format of \<open>np.save\<close>. The file system maps paths to files and
  says for which paths \<open>open\<close> for writing succeeds.
\<close>

record ndarray =
  shape :: "nat list"
  elems :: "pyfloat list"

definition ndim :: "ndarray \<Rightarrow> nat" where
  "ndim a = length (shape a)"

datatype chunk = Chars string | Array ndarray

record filesystem =
  files :: "string \<Rightarrow> chunk list option"
  writable :: "string \<Rightarrow> bool"

definition isfile :: "filesystem \<Rightarrow> string \<Rightarrow> bool" where
  "isfile fs path = (files fs path \<noteq> None)"

text \<open>\<open>with open(path, 'w') as file: file.write(content)\<close> (also mode \<open>'wb'\<close>): the
  file is created or replaced.\<close>

definition write_file :: "filesystem \<Rightarrow> string \<Rightarrow> chunk \<Rightarrow> pyerror + filesystem" where
  "write_file fs path content =
     (if writable fs path then Inr (fs\<lparr>files := (files fs)(path := Some [content])\<rparr>)
      else Inl OSError)"

text \<open>
  \<open>np.savetxt(file, X, delimiter=..., fmt=...)\<close> on a file opened for appending:
  \<open>ValueError\<close> unless \<open>X\<close> has one or two dimensions; otherwise one line for each
  row, the numbers of a row formatted and joined by the delimiter. A one-dimensional
  array is written as a column.
\<close>

definition array_rows :: "ndarray \<Rightarrow> pyfloat list list" where
  "array_rows a =
     (if ndim a = 1 then map (\<lambda>x. [x]) (elems a)
      else map (\<lambda>i. take (shape a ! 1) (drop (i * (shape a ! 1)) (elems a))) [0..<shape a ! 0])"

definition savetxt ::
  "ndarray \<Rightarrow> string \<Rightarrow> (pyfloat \<Rightarrow> string) \<Rightarrow> pyerror + string" where
  "savetxt X delim fmt =
     (if ndim X = 0 \<or> 2 < ndim X then Inl ValueError
      else Inr (concat (map (\<lambda>row. join delim (map fmt row) @ newline) (array_rows X))))"

text \<open>\<open>np.expand_dims(data, axis=0)\<close>: one more dimension of size one in front.\<close>

definition expand_dims :: "ndarray \<Rightarrow> ndarray" where
  "expand_dims a = a\<lparr>shape := 1 # shape a\<rparr>"

section \<open>Saving data as text\<close>

text \<open>
  The storage classes call \<open>self.create_file_path(timestamp=..., filename=...,
  nametag=...)\<close>, and the source file holds the definition of that method only as a
  comment. The functions below therefore take the method as the parameter
  \<open>create_file_path\<close>: from the time stamp, the file name and the name tag of the call to
  the path of the data file, or to the exception that the call raises (\<open>AttributeError\<close>
  for an object that has no such method). What is proved of them holds for every such
  parameter.

  Every operation returns its outcome (\<open>Inl\<close> the exception, \<open>Inr\<close> the value)
  together with the storage object and the file system as the call leaves them.
\<close>

type_synonym path_resolver =
  "datetime \<Rightarrow> string option \<Rightarrow> string option \<Rightarrow> pyerror + string"

definition new_data_file ::
  "path_resolver \<Rightarrow> text_storage \<Rightarrow> pystate \<Rightarrow> datetime \<Rightarrow> filesystem \<Rightarrow>
   items option \<Rightarrow> string option \<Rightarrow> string option \<Rightarrow> string option \<Rightarrow> datetime option \<Rightarrow>
   (pyerror + string \<times> datetime) \<times> text_storage \<times> filesystem" where
  "new_data_file create_file_path self s now fs metadata notes filename nametag timestamp =
     (let ts = (case timestamp of None \<Rightarrow> now | Some t \<Rightarrow> t)
      in case create_file_path ts filename nametag of
           Inl e \<Rightarrow> (Inl e, self, fs)
         | Inr file_path \<Rightarrow>
             (let header = create_header self s now metadata notes (Some ts)
              in case write_file fs file_path (Chars header) of
                   Inl e \<Rightarrow> (Inl e, self, fs)
                 | Inr fs' \<Rightarrow>
                     (Inr (file_path, ts), self\<lparr>current_data_file := Some file_path\<rparr>, fs')))"

definition append_data_file ::
  "text_storage \<Rightarrow> filesystem \<Rightarrow> ndarray \<Rightarrow> string option \<Rightarrow>
   (pyerror + nat list) \<times> filesystem" where
  "append_data_file self fs data file_path =
     (case (case file_path of None \<Rightarrow> current_data_file self | Some p \<Rightarrow> Some p) of
        None \<Rightarrow> (Inl FileNotFoundError, fs)
      | Some p \<Rightarrow>
          (case files fs p of
             None \<Rightarrow> (Inl FileNotFoundError, fs)
           | Some content \<Rightarrow>
               if \<not> writable fs p then (Inl OSError, fs)
               else
                 (case (if ndim data = 1
                        then savetxt (expand_dims data) (delimiter self) (number_format self)
                        else savetxt data (delimiter self) (number_format self)) of
                    Inl e \<Rightarrow> (Inl e, fs)
                  | Inr text \<Rightarrow>
                      (Inr (if ndim data = 1 then [1, shape data ! 0] else shape data),
                       fs\<lparr>files := (files fs)(p := Some (content @ [Chars text]))\<rparr>))))"

definition text_save_data ::
  "path_resolver \<Rightarrow> text_storage \<Rightarrow> pystate \<Rightarrow> datetime \<Rightarrow> filesystem \<Rightarrow> ndarray \<Rightarrow>
   items option \<Rightarrow> string option \<Rightarrow> string option \<Rightarrow> datetime option \<Rightarrow> string option \<Rightarrow>
   (pyerror + string \<times> datetime \<times> nat list) \<times> text_storage \<times> filesystem" where
  "text_save_data create_file_path self s now fs data metadata filename nametag timestamp notes =
     (case new_data_file create_file_path self s now fs metadata notes filename nametag timestamp of
        (Inl e, self1, fs1) \<Rightarrow> (Inl e, self1, fs1)
      | (Inr (file_path, ts), self1, fs1) \<Rightarrow>
          (case append_data_file self1 fs1 data None of
             (Inl e, fs2) \<Rightarrow> (Inl e, self1, fs2)
           | (Inr dims, fs2) \<Rightarrow> (Inr (file_path, ts, dims), self1, fs2)))"

section \<open>Saving data as a binary array\<close>

text \<open>\<open>path.rsplit('.', 1)[0]\<close>: the path up to its last point, or all of it when it
  has none.\<close>

definition rsplit_dot :: "string \<Rightarrow> string" where
  "rsplit_dot p =
     (if CHR ''.'' \<in> set p
      then rev (drop 1 (dropWhile (\<lambda>c. c \<noteq> CHR ''.'') (rev p)))
      else p)"

definition npy_save_data ::
  "path_resolver \<Rightarrow> npy_storage \<Rightarrow> pystate \<Rightarrow> datetime \<Rightarrow> filesystem \<Rightarrow> ndarray \<Rightarrow>
   items option \<Rightarrow> string option \<Rightarrow> string option \<Rightarrow> string option \<Rightarrow> datetime option \<Rightarrow>
   (pyerror + string \<times> datetime \<times> nat list) \<times> filesystem" where
  "npy_save_data create_file_path self s now fs data metadata notes filename nametag timestamp =
     (let ts = (case timestamp of None \<Rightarrow> now | Some t \<Rightarrow> t)
      in case create_file_path ts filename nametag of
           Inl e \<Rightarrow> (Inl e, fs)
         | Inr file_path \<Rightarrow>
             (case write_file fs file_path (Array data) of
                Inl e \<Rightarrow> (Inl e, fs)
              | Inr fs1 \<Rightarrow>
                  (let param_file_path = rsplit_dot file_path @ ''_metadata.txt'';
                       header = npy_create_header self s now metadata notes (Some ts)
                   in case write_file fs1 param_file_path (Chars header) of
                        Inl e \<Rightarrow> (Inl e, fs1)
                      | Inr fs2 \<Rightarrow> (Inr (file_path, ts, shape data), fs2))))"

section \<open>Example values\<close>

text \<open>The time stamp 2021-01-30 11:30:59, a store whose registry holds a list under the
  key \<open>k\<close>, and a file system in which every path but one can be written.\<close>

definition example_timestamp :: datetime where
  "example_timestamp =
     \<lparr>year = 2021, month = 1, day = 30, hour = 11, minute = 30, second = 59, microsecond = 0\<rparr>"


section \<open>Reading the store\<close>

text \<open>
  The registry as a dictionary: the items of the object that the class attribute refers
  to. A state has a registry if that object is a dictionary, and it is well formed if, in
  addition, every list reference in the registry points to a list object; the states of a
  Python process are well formed.
\<close>

definition registry :: "pystate \<Rightarrow> items" where
  "registry s = dict_items (heap s) (global_metadata s)"

definition valid_ref :: "pyobj list \<Rightarrow> pyval \<Rightarrow> bool" where
  "valid_ref h v =
     (case v of
        VList a \<Rightarrow> (case heap_get h a of Some (OList _) \<Rightarrow> True | _ \<Rightarrow> False)
      | _ \<Rightarrow> True)"

definition valid_items :: "pyobj list \<Rightarrow> items \<Rightarrow> bool" where
  "valid_items h d = list_all (\<lambda>item. valid_ref h (snd item)) d"

definition has_registry :: "pystate \<Rightarrow> bool" where
  "has_registry s =
     (case heap_get (heap s) (global_metadata s) of Some (ODict _) \<Rightarrow> True | _ \<Rightarrow> False)"

definition wf_state :: "pystate \<Rightarrow> bool" where
  "wf_state s = (has_registry s \<and> valid_items (heap s) (registry s))"

text \<open>
  What a value is worth in a store, as \<open>==\<close> compares it and as it is printed: an
  immutable value is itself, a list reference is the list it points to. \<open>contents\<close> is
  a dictionary read that way.
\<close>

datatype content = Immutable pyval | ListOf "int list"

definition content :: "pyobj list \<Rightarrow> pyval \<Rightarrow> content" where
  "content h v = (case v of VList a \<Rightarrow> ListOf (list_items h a) | _ \<Rightarrow> Immutable v)"

definition contents :: "pyobj list \<Rightarrow> items \<Rightarrow> (pykey \<times> content) list" where
  "contents h d = map (\<lambda>item. (fst item, content h (snd item))) d"

text \<open>A value is new for a store of \<open>n\<close> objects if it is immutable or refers to an
  object allocated later.\<close>

definition new_for :: "nat \<Rightarrow> pyval \<Rightarrow> bool" where
  "new_for n v = (case v of VList a \<Rightarrow> n \<le> a | _ \<Rightarrow> True)"

definition all_new_for :: "nat \<Rightarrow> items \<Rightarrow> bool" where
  "all_new_for n d = list_all (\<lambda>item. new_for n (snd item)) d"

text \<open>A store with a list in the registry under the key \<open>k\<close>.\<close>

definition example_state :: pystate where
  "example_state = \<lparr>heap = [ODict [(KStr ''k'', VList 1)], OList [1]], global_metadata = 0\<rparr>"

text \<open>The invariant of the memo of a deep copy that started on a store of \<open>n\<close> objects:
  every entry maps a list to a list allocated since, with the same elements.\<close>

definition memo_ok :: "nat \<Rightarrow> pyobj list \<Rightarrow> memo \<Rightarrow> bool" where
  "memo_ok n h m = (\<forall>(a, a') \<in> set m. valid_ref h (VList a) \<and> valid_ref h (VList a') \<and> n \<le> a'
      \<and> list_items h a' = list_items h a)"

text \<open>The comment prefix that a text storage object puts before every header line: its
  \<open>comments\<close> string, or nothing when that is \<open>None\<close>.\<close>

definition comment_prefix :: "text_storage \<Rightarrow> string" where
  "comment_prefix self = (case comments self of None \<Rightarrow> [] | Some c \<Rightarrow> c)"

text \<open>A CSV storage object with the comment prefix \<open>"# "\<close> and the single string
  \<open>"x,y"\<close> as its column headers, and a binary storage object without column headers.\<close>

definition example_csv_storage :: text_storage where
  "example_csv_storage =
     \<lparr>root_dir = None, file_extension = None, include_global_metadata = False,
      cls = CsvDataStorage, column_headers = HeaderStr ''x,y'', number_format = format_e 18,
      comments = Some ''# '', delimiter = '','', current_data_file = None\<rparr>"

definition example_npy_storage :: npy_storage where
  "example_npy_storage =
     \<lparr>root_dir = None, file_extension = Some ''.npy'', include_global_metadata = False,
      npy_column_headers = NoHeaders\<rparr>"

section \<open>Properties of the file names\<close>









lemma filename_None: "get_timestamp_filename ts None = strftime ''%Y%m%d-%H%M-%S'' ts"
  by (simp add: get_timestamp_filename_def)

lemma filename_blank:
  assumes "strip tag = []"
  shows "get_timestamp_filename ts (Some tag) = strftime ''%Y%m%d-%H%M-%S'' ts"
  using assms by (simp add: get_timestamp_filename_def Let_def)










lemmas filename_eval = get_timestamp_filename_def strip_def isspace_def whitespace_def
  directive_def zero_pad_def str_nat.simps digit_char_def example_timestamp_def

text \<open>
  Claim C3, as the specification states it: \<open>get_timestamp_filename\<close> fails with
  \<open>InvalidTag\<close> whenever a tag is supplied that is empty after trimming. The source has no
  such failure: for the tag of three spaces the call returns the file name of the time
  stamp alone.
\<close>

theorem blank_tag_is_accepted:
  "get_timestamp_filename example_timestamp (Some ''   '') = ''20210130-1130-59''"
  by (simp add: filename_eval)

text \<open>
  Claim C3, amended: \<open>get_timestamp_filename\<close> never fails; a supplied tag that is empty
  after trimming white space is treated like no tag at all, and the result is the
  formatted time stamp alone.
\<close>

theorem blank_tag_like_no_tag:
  "strip tag = [] \<Longrightarrow>
   get_timestamp_filename ts (Some tag) = get_timestamp_filename ts None \<and>
   get_timestamp_filename ts (Some tag) = strftime ''%Y%m%d-%H%M-%S'' ts"
  by (simp add: filename_blank filename_None)

theorem blank_tag_like_no_tag_witness:
  "strip [CHR 0x09, CHR '' '', CHR 0x0A] = [] \<and>
   get_timestamp_filename example_timestamp (Some [CHR 0x09, CHR '' '', CHR 0x0A])
     = get_timestamp_filename example_timestamp None \<and>
   get_timestamp_filename example_timestamp (Some [CHR 0x09, CHR '' '', CHR 0x0A])
     = ''20210130-1130-59''"
proof -
  have h: "strip [CHR 0x09, CHR '' '', CHR 0x0A] = []"
    by (simp add: strip_def isspace_def whitespace_def)
  have e: "strftime ''%Y%m%d-%H%M-%S'' example_timestamp = ''20210130-1130-59''"
    by (simp add: filename_eval)
  note c = blank_tag_like_no_tag [OF h, of example_timestamp]
  from c have a: "get_timestamp_filename example_timestamp (Some [CHR 0x09, CHR '' '', CHR 0x0A])
     = get_timestamp_filename example_timestamp None"
    by (rule conjunct1)
  from c have "get_timestamp_filename example_timestamp (Some [CHR 0x09, CHR '' '', CHR 0x0A])
     = strftime ''%Y%m%d-%H%M-%S'' example_timestamp"
    by (rule conjunct2)
  then have b: "get_timestamp_filename example_timestamp (Some [CHR 0x09, CHR '' '', CHR 0x0A])
     = ''20210130-1130-59''"
    by (simp only: e)
  from h a b show ?thesis by blast
qed




section \<open>Properties of the store and of deep copies\<close>

lemma heap_get_append: "a < length h \<Longrightarrow> heap_get (h @ ext) a = heap_get h a"
  by (simp add: heap_get_def nth_append)

lemma list_items_append: "a < length h \<Longrightarrow> list_items (h @ ext) a = list_items h a"
  by (simp add: list_items_def heap_get_append)

lemma dict_items_append: "a < length h \<Longrightarrow> dict_items (h @ ext) a = dict_items h a"
  by (simp add: dict_items_def heap_get_append)

lemma valid_ref_VList: "valid_ref h (VList a) \<Longrightarrow> a < length h"
  by (auto simp: valid_ref_def heap_get_def split: if_splits)

lemma valid_ref_append: "valid_ref h v \<Longrightarrow> valid_ref (h @ ext) v"
  by (cases v) (auto simp: valid_ref_def heap_get_def nth_append split: if_splits option.splits pyobj.splits)

lemma content_append: "valid_ref h v \<Longrightarrow> content (h @ ext) v = content h v"
  by (cases v) (auto simp: content_def dest: valid_ref_VList intro: list_items_append)

lemma valid_items_append: "valid_items h d \<Longrightarrow> valid_items (h @ ext) d"
  by (induction d) (auto simp: valid_items_def valid_ref_append)

lemma contents_append: "valid_items h d \<Longrightarrow> contents (h @ ext) d = contents h d"
  by (induction d) (auto simp: valid_items_def contents_def content_append)

lemma memo_ok_append: "memo_ok n h m \<Longrightarrow> memo_ok n (h @ ext) m"
proof -
  assume ok: "memo_ok n h m"
  have "valid_ref (h @ ext) (VList a) \<and> valid_ref (h @ ext) (VList a') \<and> n \<le> a'
      \<and> list_items (h @ ext) a' = list_items (h @ ext) a" if "(a, a') \<in> set m" for a a'
  proof -
    from ok that have v: "valid_ref h (VList a)" "valid_ref h (VList a')" "n \<le> a'"
      "list_items h a' = list_items h a" by (auto simp: memo_ok_def)
    from v(1,2) have "a < length h" "a' < length h" by (auto dest: valid_ref_VList)
    with v show ?thesis by (simp add: valid_ref_append list_items_append)
  qed
  then show ?thesis by (auto simp: memo_ok_def)
qed

lemma deepcopy_val_props:
  assumes "memo_ok n h m" "valid_ref h v" "n \<le> length h" "deepcopy_val h m v = (h', m', v')"
  shows "\<exists>ext. h' = h @ ext" "memo_ok n h' m'" "valid_ref h' v'" "content h' v' = content h v"
    "new_for n v'"
proof -
  show "\<exists>ext. h' = h @ ext" using assms(4)
    by (cases v) (auto split: option.splits pyobj.splits)
  show "memo_ok n h' m'"
  proof (cases v)
    case (VList a)
    show ?thesis
    proof (cases "map_of m a")
      case None
      from assms(2) VList obtain xs where xs: "heap_get h a = Some (OList xs)"
        by (auto simp: valid_ref_def split: option.splits pyobj.splits)
      with None VList assms(4) have eq: "h' = h @ [OList xs]" "m' = (a, length h) # m" by auto
      have "memo_ok n (h @ [OList xs]) m" using assms(1) by (rule memo_ok_append)
      moreover have "valid_ref (h @ [OList xs]) (VList a)"
        using assms(2) VList by (simp add: valid_ref_append)
      moreover have "valid_ref (h @ [OList xs]) (VList (length h))"
        by (simp add: valid_ref_def heap_get_def)
      moreover have "list_items (h @ [OList xs]) (length h) = list_items (h @ [OList xs]) a"
        using xs by (auto simp: list_items_def heap_get_def nth_append split: if_splits)
      ultimately show ?thesis using eq assms(3) by (simp add: memo_ok_def)
    next
      case (Some a')
      with VList assms(4) assms(1) show ?thesis by auto
    qed
  qed (use assms in auto)
  show "valid_ref h' v'"
  proof (cases v)
    case (VList a)
    show ?thesis
    proof (cases "map_of m a")
      case None
      from assms(2) VList obtain xs where xs: "heap_get h a = Some (OList xs)"
        by (auto simp: valid_ref_def split: option.splits pyobj.splits)
      with None VList assms(4) show ?thesis by (auto simp: valid_ref_def heap_get_def)
    next
      case (Some a')
      then have "(a, a') \<in> set m" by (rule map_of_SomeD)
      with assms(1) have "valid_ref h (VList a')" by (auto simp: memo_ok_def)
      with Some VList assms(4) show ?thesis by auto
    qed
  qed (use assms in \<open>auto simp: valid_ref_def\<close>)
  show "content h' v' = content h v"
  proof (cases v)
    case (VList a)
    show ?thesis
    proof (cases "map_of m a")
      case None
      from assms(2) VList obtain xs where xs: "heap_get h a = Some (OList xs)"
        by (auto simp: valid_ref_def split: option.splits pyobj.splits)
      with None VList assms(4) show ?thesis
        by (auto simp: content_def list_items_def heap_get_def)
    next
      case (Some a')
      then have "(a, a') \<in> set m" by (rule map_of_SomeD)
      with assms(1) have "list_items h a' = list_items h a" by (auto simp: memo_ok_def)
      with Some VList assms(4) show ?thesis by (auto simp: content_def)
    qed
  qed (use assms in \<open>auto simp: content_def\<close>)
  show "new_for n v'"
  proof (cases v)
    case (VList a)
    show ?thesis
    proof (cases "map_of m a")
      case None
      from assms(2) VList obtain xs where xs: "heap_get h a = Some (OList xs)"
        by (auto simp: valid_ref_def split: option.splits pyobj.splits)
      with None VList assms(4) assms(3) show ?thesis by (auto simp: new_for_def)
    next
      case (Some a')
      then have "(a, a') \<in> set m" by (rule map_of_SomeD)
      with assms(1) have "n \<le> a'" by (auto simp: memo_ok_def)
      with Some VList assms(4) show ?thesis by (auto simp: new_for_def)
    qed
  qed (use assms in \<open>auto simp: new_for_def\<close>)
qed


lemma deepcopy_items_props:
  assumes "memo_ok n h m" "valid_items h es" "n \<le> length h" "deepcopy_items h m es = (h', m', es')"
  shows "(\<exists>ext. h' = h @ ext) \<and> memo_ok n h' m' \<and> valid_items h' es' \<and> keys es' = keys es
         \<and> contents h' es' = contents h es \<and> all_new_for n es'"
  using assms
proof (induction es arbitrary: h m h' m' es')
  case Nil
  then show ?case by (simp add: valid_items_def keys_def contents_def all_new_for_def)
next
  case (Cons item es)
  obtain k v where item: "item = (k, v)" by (cases item)
  obtain h1 m1 v1 where c1: "deepcopy_val h m v = (h1, m1, v1)" by (cases "deepcopy_val h m v")
  obtain h2 m2 es2 where c2: "deepcopy_items h1 m1 es = (h2, m2, es2)"
    by (cases "deepcopy_items h1 m1 es")
  from Cons.prems(4) item c1 c2 have res: "h' = h2" "m' = m2" "es' = (k, v1) # es2" by auto
  from Cons.prems(2) item have vv: "valid_ref h v" and ves: "valid_items h es"
    by (simp_all add: valid_items_def)
  note p1 = deepcopy_val_props[OF Cons.prems(1) vv Cons.prems(3) c1]
  from p1(1) obtain ext1 where e1: "h1 = h @ ext1" by blast
  from ves e1 have ves1: "valid_items h1 es" by (simp add: valid_items_append)
  from e1 Cons.prems(3) have n1: "n \<le> length h1" by simp
  note ih = Cons.IH[OF p1(2) ves1 n1 c2]
  from ih obtain ext2 where e2: "h2 = h1 @ ext2" by blast
  have "\<exists>ext. h' = h @ ext" using e1 e2 res by simp
  moreover have "memo_ok n h' m'" using ih res by simp
  moreover have "valid_items h' es'"
    using ih res p1(3) e2 by (simp add: valid_items_def valid_ref_append)
  moreover have "keys es' = keys (item # es)"
    using ih res item by (simp add: keys_def)
  moreover have "contents h' es' = contents h (item # es)"
  proof -
    have "content h2 v1 = content h1 v1" using p1(3) e2 by (simp add: content_append)
    moreover have "contents h1 es = contents h es" using ves e1 by (simp add: contents_append)
    ultimately show ?thesis using ih res p1(4) item by (simp add: contents_def)
  qed
  moreover have "all_new_for n es'" using ih res p1(5) by (simp add: all_new_for_def)
  ultimately show ?case by simp
qed

lemma memo_ok_Nil: "memo_ok n h []"
  by (simp add: memo_ok_def)

lemma keys_setitem: "k \<in> set (keys d) \<Longrightarrow> keys (setitem d k v) = keys d"
  by (induction d) (force simp: keys_def)+

lemma setitem_new: "k \<notin> set (keys d) \<Longrightarrow> setitem d k v = d @ [(k, v)]"
  by (induction d) (auto simp: keys_def)

lemma update_new:
  "distinct (keys es) \<Longrightarrow> set (keys es) \<inter> set (keys d) = {} \<Longrightarrow> update d es = d @ es"
proof (induction es arbitrary: d)
  case Nil
  then show ?case by simp
next
  case (Cons item es)
  obtain k v where item: "item = (k, v)" by (cases item)
  with Cons.prems have "k \<notin> set (keys d)" by (auto simp: keys_def)
  then have s: "setitem d k v = d @ [(k, v)]" by (rule setitem_new)
  from Cons.prems item have "distinct (keys es)" "set (keys es) \<inter> set (keys (d @ [(k, v)])) = {}"
    by (auto simp: keys_def)
  then have "update (d @ [(k, v)]) es = (d @ [(k, v)]) @ es" by (rule Cons.IH)
  with s item show ?case by simp
qed

lemma has_registry_D:
  "has_registry s \<Longrightarrow> global_metadata s < length (heap s) \<and> heap s ! global_metadata s = ODict (registry s)"
  by (auto simp: has_registry_def registry_def dict_items_def heap_get_def
      split: if_splits option.splits pyobj.splits)

lemma list_items_heap_set_dict:
  assumes "heap_get h g = Some (ODict d0)"
  shows "list_items (heap_set h g (ODict d)) a = list_items h a"
  using assms by (auto simp: list_items_def heap_set_def heap_get_def nth_list_update split: if_splits)

lemma content_heap_set_dict:
  assumes "heap_get h g = Some (ODict d0)"
  shows "content (heap_set h g (ODict d)) v = content h v"
  using assms by (cases v) (simp_all add: content_def list_items_heap_set_dict)

lemma contents_heap_set_dict:
  assumes "heap_get h g = Some (ODict d0)"
  shows "contents (heap_set h g (ODict d)) es = contents h es"
  using assms by (simp add: contents_def content_heap_set_dict)

lemma dict_items_heap_set: "g < length h \<Longrightarrow> dict_items (heap_set h g (ODict d)) g = d"
  by (simp add: dict_items_def heap_set_def heap_get_def)

section \<open>Properties of the registry\<close>

lemma add_dict_unfold:
  assumes "deepcopy_items (heap s) [] d = (h, m, d')"
  shows "add_global_metadata s (NameDict d) v ow =
     (let s1 = s\<lparr>heap := h\<rparr>;
          reg = dict_items h (global_metadata s);
          dup = filter (\<lambda>k. k \<in> set (keys reg)) (keys d')
      in if \<not> ow \<and> dup \<noteq> [] then (Inl KeyError, s1)
         else (Inr (), s1\<lparr>heap := heap_set h (global_metadata s) (ODict (update reg d'))\<rparr>))"
  using assms by (simp add: add_global_metadata_def Let_def)

lemma filter_empty_disjoint: "(filter (\<lambda>k. k \<in> set ys) xs = []) = (set xs \<inter> set ys = {})"
  by (auto simp: filter_empty_conv)

lemma deepcopy_items_start:
  assumes "valid_items (heap s) d"
  obtains h m d' ext where "deepcopy_items (heap s) [] d = (h, m, d')" "h = heap s @ ext"
    "valid_items h d'" "keys d' = keys d" "contents h d' = contents (heap s) d"
    "all_new_for (length (heap s)) d'"
proof -
  obtain h m d' where c: "deepcopy_items (heap s) [] d = (h, m, d')"
    by (cases "deepcopy_items (heap s) [] d")
  from deepcopy_items_props[OF memo_ok_Nil assms order_refl c]
  show ?thesis using c that by blast
qed

lemma add_dict_duplicate:
  assumes wf: "wf_state s" and v: "valid_items (heap s) d"
    and dup: "set (keys d) \<inter> set (keys (registry s)) \<noteq> {}"
  shows "fst (add_global_metadata s (NameDict d) v0 False) = Inl KeyError"
    "registry (snd (add_global_metadata s (NameDict d) v0 False)) = registry s"
    "contents (heap (snd (add_global_metadata s (NameDict d) v0 False)))
       (registry (snd (add_global_metadata s (NameDict d) v0 False)))
     = contents (heap s) (registry s)"
    "take (length (heap s)) (heap (snd (add_global_metadata s (NameDict d) v0 False))) = heap s"
    "global_metadata (snd (add_global_metadata s (NameDict d) v0 False)) = global_metadata s"
proof -
  from v obtain h m d' ext where c: "deepcopy_items (heap s) [] d = (h, m, d')"
    and h: "h = heap s @ ext" and k: "keys d' = keys d"
    by (rule deepcopy_items_start)
  from wf have g: "global_metadata s < length (heap s)"
    by (simp add: wf_state_def has_registry_D)
  then have reg: "dict_items h (global_metadata s) = registry s"
    by (simp add: h registry_def dict_items_append)
  from dup k reg have "filter (\<lambda>k. k \<in> set (keys (dict_items h (global_metadata s)))) (keys d') \<noteq> []"
    by (simp add: filter_empty_disjoint)
  then have r: "add_global_metadata s (NameDict d) v0 False = (Inl KeyError, s\<lparr>heap := h\<rparr>)"
    by (simp add: add_dict_unfold[OF c] Let_def)
  show "fst (add_global_metadata s (NameDict d) v0 False) = Inl KeyError" by (simp add: r)
  show "registry (snd (add_global_metadata s (NameDict d) v0 False)) = registry s"
    using reg by (simp add: r registry_def)
  show "contents (heap (snd (add_global_metadata s (NameDict d) v0 False)))
       (registry (snd (add_global_metadata s (NameDict d) v0 False)))
     = contents (heap s) (registry s)"
    using reg wf by (simp add: r registry_def h contents_append wf_state_def)
  show "take (length (heap s)) (heap (snd (add_global_metadata s (NameDict d) v0 False))) = heap s"
    by (simp add: r h)
  show "global_metadata (snd (add_global_metadata s (NameDict d) v0 False)) = global_metadata s"
    by (simp add: r)
qed

lemma add_dict_applied:
  assumes wf: "wf_state s" and v: "valid_items (heap s) d"
    and ok: "ow \<or> set (keys d) \<inter> set (keys (registry s)) = {}"
  obtains s' d' where "add_global_metadata s (NameDict d) v0 ow = (Inr (), s')"
    "global_metadata s' = global_metadata s"
    "registry s' = update (registry s) d'"
    "keys d' = keys d"
    "contents (heap s') d' = contents (heap s) d"
    "contents (heap s') (registry s) = contents (heap s) (registry s)"
    "all_new_for (length (heap s)) d'"
    "wf_state s'"
proof -
  from v obtain h m d' ext where c: "deepcopy_items (heap s) [] d = (h, m, d')"
    and h: "h = heap s @ ext" and k: "keys d' = keys d" and vd: "valid_items h d'"
    and cd: "contents h d' = contents (heap s) d" and new: "all_new_for (length (heap s)) d'"
    by (rule deepcopy_items_start)
  let ?g = "global_metadata s"
  from wf have g: "?g < length (heap s)" and o: "heap s ! ?g = ODict (registry s)"
    by (simp_all add: wf_state_def has_registry_D)
  from g have reg: "dict_items h ?g = registry s"
    by (simp add: h registry_def dict_items_append)
  from g o have hg: "heap_get h ?g = Some (ODict (registry s))"
    by (simp add: h heap_get_def nth_append)
  from g have gh: "?g < length h" by (simp add: h)
  define s' where "s' = s\<lparr>heap := heap_set h ?g (ODict (update (registry s) d'))\<rparr>"
  from ok k reg have "ow \<or> filter (\<lambda>k. k \<in> set (keys (dict_items h ?g))) (keys d') = []"
    by (simp add: filter_empty_disjoint)
  then have r: "add_global_metadata s (NameDict d) v0 ow = (Inr (), s')"
    by (auto simp: add_dict_unfold[OF c] Let_def reg s'_def)
  have r1: "registry s' = update (registry s) d'"
    using gh by (simp add: s'_def registry_def dict_items_heap_set)
  have c1: "contents (heap s') d' = contents (heap s) d"
    using cd by (simp add: s'_def contents_heap_set_dict[OF hg])
  have c2: "contents (heap s') (registry s) = contents (heap s) (registry s)"
  proof -
    have "contents (heap s') (registry s) = contents h (registry s)"
      by (simp add: s'_def contents_heap_set_dict[OF hg])
    also have "\<dots> = contents (heap s) (registry s)"
      using wf by (simp add: h contents_append wf_state_def)
    finally show ?thesis .
  qed
  have vh: "valid_items (heap_set h ?g (ODict x)) es" if "valid_items h es" for x es
  proof -
    have "valid_ref (heap_set h ?g (ODict x)) w" if "valid_ref h w" for w
      using that hg
      by (cases w) (auto simp: valid_ref_def heap_get_def heap_set_def nth_list_update
          split: if_splits option.splits pyobj.splits)
    with that show ?thesis by (auto simp: valid_items_def list_all_iff)
  qed
  have vu: "valid_items hh (update a b)" if "valid_items hh a" "valid_items hh b" for hh a b
    using that
  proof (induction b arbitrary: a)
    case Nil
    then show ?case by simp
  next
    case (Cons item b)
    obtain k v where item: "item = (k, v)" by (cases item)
    have "valid_items hh (setitem a k v)" if "valid_items hh a" "valid_ref hh v" for a
      using that by (induction a) (auto simp: valid_items_def)
    with Cons item show ?case by (simp add: valid_items_def)
  qed
  have w: "wf_state s'"
  proof -
    have "has_registry s'"
      using gh by (simp add: s'_def has_registry_def heap_get_def heap_set_def)
    moreover have "valid_items h (registry s)"
      using wf by (simp add: h valid_items_append wf_state_def)
    then have "valid_items h (update (registry s) d')"
      using vd by (rule vu)
    then have "valid_items (heap_set h ?g (ODict (update (registry s) d'))) (update (registry s) d')"
      by (rule vh)
    then have "valid_items (heap s') (registry s')"
      unfolding r1 by (simp add: s'_def)
    ultimately show ?thesis by (simp add: wf_state_def)
  qed
  show ?thesis
    by (rule that[OF r _ r1 k c1 c2 new w]) (simp add: s'_def)
qed

section \<open>The registry: claims C1, C2 and C10\<close>

lemma contents_append2: "contents h (a @ b) = contents h a @ contents h b"
  by (simp add: contents_def)

lemma keys_append: "keys (a @ b) = keys a @ keys b"
  by (simp add: keys_def)




lemmas store_eval = add_global_metadata_def get_global_metadata_def heap_new_def heap_get_def
  heap_set_def dict_items_def list_items_def registry_def keys_def contents_def content_def
  valid_items_def valid_ref_def has_registry_def wf_state_def initial_state_def Let_def
  is_str_key_def

lemma add_dict_all_or_nothing:
  assumes "wf_state s" and "valid_items (heap s) entries" and "distinct (keys entries)"
  shows
    "(set (keys entries) \<inter> set (keys (registry s)) \<noteq> {} \<longrightarrow>
        fst (add_global_metadata s (NameDict entries) v False) = Inl KeyError \<and>
        global_metadata (snd (add_global_metadata s (NameDict entries) v False))
          = global_metadata s \<and>
        registry (snd (add_global_metadata s (NameDict entries) v False)) = registry s \<and>
        contents (heap (snd (add_global_metadata s (NameDict entries) v False)))
          (registry (snd (add_global_metadata s (NameDict entries) v False)))
          = contents (heap s) (registry s) \<and>
        take (length (heap s)) (heap (snd (add_global_metadata s (NameDict entries) v False)))
          = heap s) \<and>
     (set (keys entries) \<inter> set (keys (registry s)) = {} \<longrightarrow>
        fst (add_global_metadata s (NameDict entries) v False) = Inr () \<and>
        global_metadata (snd (add_global_metadata s (NameDict entries) v False))
          = global_metadata s \<and>
        keys (registry (snd (add_global_metadata s (NameDict entries) v False)))
          = keys (registry s) @ keys entries \<and>
        contents (heap (snd (add_global_metadata s (NameDict entries) v False)))
          (registry (snd (add_global_metadata s (NameDict entries) v False)))
          = contents (heap s) (registry s) @ contents (heap s) entries)"
proof (intro conjI impI)
  assume dup: "set (keys entries) \<inter> set (keys (registry s)) \<noteq> {}"
  note d = add_dict_duplicate[OF assms(1,2) dup, of v]
  show "fst (add_global_metadata s (NameDict entries) v False) = Inl KeyError" by (rule d(1))
  show "global_metadata (snd (add_global_metadata s (NameDict entries) v False))
          = global_metadata s" by (rule d(5))
  show "registry (snd (add_global_metadata s (NameDict entries) v False)) = registry s"
    by (rule d(2))
  show "contents (heap (snd (add_global_metadata s (NameDict entries) v False)))
          (registry (snd (add_global_metadata s (NameDict entries) v False)))
          = contents (heap s) (registry s)" by (rule d(3))
  show "take (length (heap s)) (heap (snd (add_global_metadata s (NameDict entries) v False)))
          = heap s" by (rule d(4))
next
  assume new: "set (keys entries) \<inter> set (keys (registry s)) = {}"
  then have ok: "False \<or> set (keys entries) \<inter> set (keys (registry s)) = {}" by simp
  from assms(1,2) ok obtain s' d' where
    r: "add_global_metadata s (NameDict entries) v False = (Inr (), s')"
    and g: "global_metadata s' = global_metadata s"
    and u: "registry s' = update (registry s) d'"
    and k: "keys d' = keys entries"
    and c1: "contents (heap s') d' = contents (heap s) entries"
    and c2: "contents (heap s') (registry s) = contents (heap s) (registry s)"
    by (rule add_dict_applied)
  from assms(3) new k have "update (registry s) d' = registry s @ d'"
    by (simp add: update_new)
  with u have u': "registry s' = registry s @ d'" by simp
  show "fst (add_global_metadata s (NameDict entries) v False) = Inr ()" by (simp add: r)
  show "global_metadata (snd (add_global_metadata s (NameDict entries) v False))
          = global_metadata s" by (simp add: r g)
  show "keys (registry (snd (add_global_metadata s (NameDict entries) v False)))
          = keys (registry s) @ keys entries" by (simp add: r u' keys_append k)
  show "contents (heap (snd (add_global_metadata s (NameDict entries) v False)))
          (registry (snd (add_global_metadata s (NameDict entries) v False)))
          = contents (heap s) (registry s) @ contents (heap s) entries"
    by (simp add: r u' contents_append2 c1 c2)
qed

lemma add_twice_fails: "fst (add_global_metadata
          (snd (add_global_metadata initial_state (NameDict [(KStr ''k'', VInt 1)]) VNone False))
          (NameDict [(KStr ''k'', VInt 1)]) VNone False) = Inl KeyError"
  by (simp add: store_eval)

lemma add_twice_get: "(case get_global_metadata
           (snd (add_global_metadata
             (snd (add_global_metadata initial_state (NameDict [(KStr ''k'', VInt 1)]) VNone False))
             (NameDict [(KStr ''k'', VInt 1)]) VNone False)) of
      (s', r) \<Rightarrow> dict_items (heap s') r) = [(KStr ''k'', VInt 1)]"
  by (simp add: store_eval)

text \<open>
  Claim C2: for every well-formed state and every dictionary of entries (its keys distinct,
  its list values in the store), \<open>add_global_metadata\<close> with \<open>overwrite=False\<close> fails
  with \<open>KeyError\<close> (the specification's \<open>DuplicateKey\<close>) when a key of the entries is
  already in the registry, and then the registry, what its values are worth, and every
  object of the store are as before; when no key of the entries is in the registry, the
  call succeeds and the registry is the old registry followed by all the entries, in their
  order and with their values. In particular, adding \<open>{"k": 1}\<close> twice to the empty
  registry fails the second time, and \<open>get_global_metadata\<close> still returns \<open>k: 1\<close>.
\<close>

theorem add_global_metadata_all_or_nothing:
  assumes "wf_state s" and "valid_items (heap s) entries" and "distinct (keys entries)"
  shows
    "(set (keys entries) \<inter> set (keys (registry s)) \<noteq> {} \<longrightarrow>
        fst (add_global_metadata s (NameDict entries) v False) = Inl KeyError \<and>
        global_metadata (snd (add_global_metadata s (NameDict entries) v False))
          = global_metadata s \<and>
        registry (snd (add_global_metadata s (NameDict entries) v False)) = registry s \<and>
        contents (heap (snd (add_global_metadata s (NameDict entries) v False)))
          (registry (snd (add_global_metadata s (NameDict entries) v False)))
          = contents (heap s) (registry s) \<and>
        take (length (heap s)) (heap (snd (add_global_metadata s (NameDict entries) v False)))
          = heap s) \<and>
     (set (keys entries) \<inter> set (keys (registry s)) = {} \<longrightarrow>
        fst (add_global_metadata s (NameDict entries) v False) = Inr () \<and>
        global_metadata (snd (add_global_metadata s (NameDict entries) v False))
          = global_metadata s \<and>
        keys (registry (snd (add_global_metadata s (NameDict entries) v False)))
          = keys (registry s) @ keys entries \<and>
        contents (heap (snd (add_global_metadata s (NameDict entries) v False)))
          (registry (snd (add_global_metadata s (NameDict entries) v False)))
          = contents (heap s) (registry s) @ contents (heap s) entries) \<and>
     fst (add_global_metadata
          (snd (add_global_metadata initial_state (NameDict [(KStr ''k'', VInt 1)]) VNone False))
          (NameDict [(KStr ''k'', VInt 1)]) VNone False) = Inl KeyError \<and>
     (case get_global_metadata
           (snd (add_global_metadata
             (snd (add_global_metadata initial_state (NameDict [(KStr ''k'', VInt 1)]) VNone False))
             (NameDict [(KStr ''k'', VInt 1)]) VNone False)) of
      (s', r) \<Rightarrow> dict_items (heap s') r) = [(KStr ''k'', VInt 1)]"
proof -
  note a = add_dict_all_or_nothing [OF assms, of v]
  from a have 1: "(set (keys entries) \<inter> set (keys (registry s)) \<noteq> {} \<longrightarrow>
        fst (add_global_metadata s (NameDict entries) v False) = Inl KeyError \<and>
        global_metadata (snd (add_global_metadata s (NameDict entries) v False))
          = global_metadata s \<and>
        registry (snd (add_global_metadata s (NameDict entries) v False)) = registry s \<and>
        contents (heap (snd (add_global_metadata s (NameDict entries) v False)))
          (registry (snd (add_global_metadata s (NameDict entries) v False)))
          = contents (heap s) (registry s) \<and>
        take (length (heap s)) (heap (snd (add_global_metadata s (NameDict entries) v False)))
          = heap s)"
    by (rule conjunct1)
  from a have 2: "(set (keys entries) \<inter> set (keys (registry s)) = {} \<longrightarrow>
        fst (add_global_metadata s (NameDict entries) v False) = Inr () \<and>
        global_metadata (snd (add_global_metadata s (NameDict entries) v False))
          = global_metadata s \<and>
        keys (registry (snd (add_global_metadata s (NameDict entries) v False)))
          = keys (registry s) @ keys entries \<and>
        contents (heap (snd (add_global_metadata s (NameDict entries) v False)))
          (registry (snd (add_global_metadata s (NameDict entries) v False)))
          = contents (heap s) (registry s) @ contents (heap s) entries)"
    by (rule conjunct2)
  show ?thesis
    by (rule conjI [OF 1 conjI [OF 2 conjI [OF add_twice_fails add_twice_get]]])
qed

theorem add_global_metadata_all_or_nothing_witness:
  "wf_state example_state \<and>
   valid_items (heap example_state) [(KStr ''k'', VInt 2)] \<and> distinct (keys [(KStr ''k'', VInt 2)]) \<and>
   set (keys [(KStr ''k'', VInt 2)]) \<inter> set (keys (registry example_state)) \<noteq> {} \<and>
   fst (add_global_metadata example_state (NameDict [(KStr ''k'', VInt 2)]) VNone False) = Inl KeyError \<and>
   registry (snd (add_global_metadata example_state (NameDict [(KStr ''k'', VInt 2)]) VNone False)) = registry example_state \<and>
   contents (heap (snd (add_global_metadata example_state (NameDict [(KStr ''k'', VInt 2)]) VNone False))) (registry (snd (add_global_metadata example_state (NameDict [(KStr ''k'', VInt 2)]) VNone False)))
     = contents (heap example_state) (registry example_state) \<and>
   take (length (heap example_state)) (heap (snd (add_global_metadata example_state (NameDict [(KStr ''k'', VInt 2)]) VNone False))) = heap example_state \<and>
   valid_items (heap example_state) [(KStr ''j'', VList 1)] \<and> distinct (keys [(KStr ''j'', VList 1)]) \<and>
   set (keys [(KStr ''j'', VList 1)]) \<inter> set (keys (registry example_state)) = {} \<and>
   fst (add_global_metadata example_state (NameDict [(KStr ''j'', VList 1)]) VNone False) = Inr () \<and>
   keys (registry (snd (add_global_metadata example_state (NameDict [(KStr ''j'', VList 1)]) VNone False))) = keys (registry example_state) @ keys [(KStr ''j'', VList 1)] \<and>
   contents (heap (snd (add_global_metadata example_state (NameDict [(KStr ''j'', VList 1)]) VNone False))) (registry (snd (add_global_metadata example_state (NameDict [(KStr ''j'', VList 1)]) VNone False)))
     = contents (heap example_state) (registry example_state) @ contents (heap example_state) [(KStr ''j'', VList 1)]"
proof -
  have w: "wf_state example_state"
    by (simp add: store_eval example_state_def)
  have v1: "valid_items (heap example_state) [(KStr ''k'', VInt 2)]"
    by (simp add: store_eval example_state_def)
  have d1: "distinct (keys [(KStr ''k'', VInt 2)])"
    by (simp add: keys_def)
  have i1: "set (keys [(KStr ''k'', VInt 2)]) \<inter> set (keys (registry example_state)) \<noteq> {}"
    by (simp add: store_eval example_state_def)
  have v2: "valid_items (heap example_state) [(KStr ''j'', VList 1)]"
    by (simp add: store_eval example_state_def)
  have d2: "distinct (keys [(KStr ''j'', VList 1)])"
    by (simp add: keys_def)
  have i2: "set (keys [(KStr ''j'', VList 1)]) \<inter> set (keys (registry example_state)) = {}"
    by (simp add: store_eval example_state_def)
  from add_global_metadata_all_or_nothing [OF w v1 d1, of VNone] i1
  have c1: "fst (add_global_metadata example_state (NameDict [(KStr ''k'', VInt 2)]) VNone False) = Inl KeyError \<and>
   registry (snd (add_global_metadata example_state (NameDict [(KStr ''k'', VInt 2)]) VNone False)) = registry example_state \<and>
   contents (heap (snd (add_global_metadata example_state (NameDict [(KStr ''k'', VInt 2)]) VNone False))) (registry (snd (add_global_metadata example_state (NameDict [(KStr ''k'', VInt 2)]) VNone False)))
     = contents (heap example_state) (registry example_state) \<and>
   take (length (heap example_state)) (heap (snd (add_global_metadata example_state (NameDict [(KStr ''k'', VInt 2)]) VNone False))) = heap example_state"
    by blast
  from add_global_metadata_all_or_nothing [OF w v2 d2, of VNone] i2
  have c2: "fst (add_global_metadata example_state (NameDict [(KStr ''j'', VList 1)]) VNone False) = Inr () \<and>
   keys (registry (snd (add_global_metadata example_state (NameDict [(KStr ''j'', VList 1)]) VNone False))) = keys (registry example_state) @ keys [(KStr ''j'', VList 1)] \<and>
   contents (heap (snd (add_global_metadata example_state (NameDict [(KStr ''j'', VList 1)]) VNone False))) (registry (snd (add_global_metadata example_state (NameDict [(KStr ''j'', VList 1)]) VNone False)))
     = contents (heap example_state) (registry example_state) @ contents (heap example_state) [(KStr ''j'', VList 1)]"
    by blast
  from w v1 d1 i1 c1 v2 d2 i2 c2 show ?thesis by blast
qed



lemma get_unfold:
  "get_global_metadata s = (s\<lparr>heap := heap s @ [ODict (registry s)]\<rparr>, length (heap s))"
  by (simp add: get_global_metadata_def heap_new_def registry_def)

lemma dict_setitem_new:
  "dict_setitem (s\<lparr>heap := h @ [ODict es]\<rparr>) (length h) k v
   = s\<lparr>heap := h @ [ODict (setitem es k v)]\<rparr>"
  by (simp add: dict_setitem_def heap_get_def heap_set_def)

lemma dict_delitem_new:
  "dict_delitem (s\<lparr>heap := h @ [ODict es]\<rparr>) (length h) k
   = s\<lparr>heap := h @ [ODict (pop es k)]\<rparr>"
  by (simp add: dict_delitem_def heap_get_def heap_set_def)

lemma registry_ext:
  "global_metadata s < length (heap s) \<Longrightarrow> registry (s\<lparr>heap := heap s @ ext\<rparr>) = registry s"
  by (simp add: registry_def dict_items_append)

text \<open>
  Claim C1, as the specification states it: \<open>get_global_metadata\<close> returns a deep copy,
  so that no mutation of a mutable value in the returned mapping changes the registry or a
  later \<open>get\<close>. The source returns \<open>cls._global_metadata.copy()\<close>, which copies the
  mapping and not its values: with the list \<open>[1]\<close> registered under \<open>k\<close>, appending
  \<open>2\<close> to the list found under \<open>k\<close> in the returned mapping changes the registry, and
  a later \<open>get\<close>, to \<open>k: [1, 2]\<close>.
\<close>

theorem returned_list_is_shared:
  "contents (heap example_state) (registry example_state) = [(KStr ''k'', ListOf [1])] \<and>
   (case get_global_metadata example_state of
      (s', r) \<Rightarrow>
        (case getitem (dict_items (heap s') r) (KStr ''k'') of
           None \<Rightarrow> []
         | Some l \<Rightarrow> contents (heap (list_append s' l 2)) (registry (list_append s' l 2))))
     = [(KStr ''k'', ListOf [1, 2])] \<and>
   (case get_global_metadata example_state of
      (s', r) \<Rightarrow>
        (case getitem (dict_items (heap s') r) (KStr ''k'') of
           None \<Rightarrow> []
         | Some l \<Rightarrow>
             (case get_global_metadata (list_append s' l 2) of
                (s'', r') \<Rightarrow> contents (heap s'') (dict_items (heap s'') r'))))
     = [(KStr ''k'', ListOf [1, 2])]"
  by (simp add: store_eval example_state_def getitem_def list_append_def)

text \<open>
  Claim C1, amended: for every well-formed state, \<open>get_global_metadata\<close> returns a
  shallow copy of the registry: a new mapping object, different from the registry, that
  holds the keys of the registry with the very values of the registry, so that it equals
  the registry contents; the call changes no object of the store; and setting or deleting a
  key of the returned mapping changes neither the registry nor the result of a later
  \<open>get\<close>. (A mutable value is shared by the registry and the returned mapping.)
\<close>

theorem get_global_metadata_shallow_copy:
  assumes "wf_state s"
  shows "(case get_global_metadata s of
            (s', r) \<Rightarrow>
              r = length (heap s) \<and> r \<noteq> global_metadata s \<and>
              global_metadata s' = global_metadata s \<and>
              heap s' = heap s @ [ODict (registry s)] \<and>
              dict_items (heap s') r = registry s \<and>
              contents (heap s') (dict_items (heap s') r) = contents (heap s) (registry s) \<and>
              registry s' = registry s \<and>
              registry (dict_setitem s' r k v) = registry s \<and>
              registry (dict_delitem s' r k) = registry s \<and>
              contents (heap (dict_setitem s' r k v)) (registry (dict_setitem s' r k v))
                = contents (heap s) (registry s) \<and>
              contents (heap (dict_delitem s' r k)) (registry (dict_delitem s' r k))
                = contents (heap s) (registry s) \<and>
              (case get_global_metadata (dict_setitem s' r k v) of
                 (s'', r') \<Rightarrow> dict_items (heap s'') r' = registry s) \<and>
              (case get_global_metadata (dict_delitem s' r k) of
                 (s'', r') \<Rightarrow> dict_items (heap s'') r' = registry s))"
proof -
  from assms have g: "global_metadata s < length (heap s)"
    and vi: "valid_items (heap s) (registry s)"
    by (simp_all add: wf_state_def has_registry_D)
  have c: "contents (heap s @ ext) (registry s) = contents (heap s) (registry s)" for ext
    using vi by (rule contents_append)
  have d: "dict_items (heap s @ [ODict es]) (length (heap s)) = es" for es
    by (simp add: dict_items_def heap_get_def)
  have d2: "dict_items (heap s @ [x, ODict es]) (Suc (length (heap s))) = es" for x es
    by (simp add: dict_items_def heap_get_def nth_append)
  have r: "registry (s\<lparr>heap := heap s @ ext\<rparr>) = registry s" for ext
    using g by (rule registry_ext)
  show ?thesis
    using g by (simp add: get_unfold dict_setitem_new dict_delitem_new r c d d2)
qed

theorem get_global_metadata_shallow_copy_witness:
  "wf_state example_state \<and>
   (case get_global_metadata example_state of
            (s', r) \<Rightarrow>
              r = length (heap example_state) \<and> r \<noteq> global_metadata example_state \<and>
              global_metadata s' = global_metadata example_state \<and>
              heap s' = heap example_state @ [ODict (registry example_state)] \<and>
              dict_items (heap s') r = registry example_state \<and>
              contents (heap s') (dict_items (heap s') r) = contents (heap example_state) (registry example_state) \<and>
              registry s' = registry example_state \<and>
              registry (dict_setitem s' r (KStr ''k'') (VInt 0)) = registry example_state \<and>
              registry (dict_delitem s' r (KStr ''k'')) = registry example_state \<and>
              contents (heap (dict_setitem s' r (KStr ''k'') (VInt 0))) (registry (dict_setitem s' r (KStr ''k'') (VInt 0)))
                = contents (heap example_state) (registry example_state) \<and>
              contents (heap (dict_delitem s' r (KStr ''k''))) (registry (dict_delitem s' r (KStr ''k'')))
                = contents (heap example_state) (registry example_state) \<and>
              (case get_global_metadata (dict_setitem s' r (KStr ''k'') (VInt 0)) of
                 (s'', r') \<Rightarrow> dict_items (heap s'') r' = registry example_state) \<and>
              (case get_global_metadata (dict_delitem s' r (KStr ''k'')) of
                 (s'', r') \<Rightarrow> dict_items (heap s'') r' = registry example_state))"
proof -
  have w: "wf_state example_state"
    by (simp add: store_eval example_state_def)
  show ?thesis
    by (rule conjI [OF w get_global_metadata_shallow_copy [OF w]])
qed

end
